theory Spec2Isabelle
  imports Complex_Main "HOL-Library.AList"
begin

section \<open>The ACME client of automatoes (\<open>automatoes/acme.py\<close>)\<close>

text \<open>
  The classes \<open>Acme\<close> (protocol version 1) and \<open>AcmeV2\<close> are embedded as functions over an
  explicit state. Everything the client gets from outside the module is a field of the
  environment \<open>env\<close>: the signing functions of \<open>automatoes.crypto\<close>, \<open>get_version\<close>,
  \<open>urlparse\<close> and \<open>urljoin\<close> of the standard library, and the HTTP library \<open>requests\<close>,
  whose answer may depend on everything that happened before.
\<close>

subsection \<open>Python values\<close>

text \<open>
  The values a parsed JSON body holds, which are also the values callers pass as payload
  fields: \<open>None\<close>, booleans, numbers, strings, lists and dictionaries. A dictionary keeps
  its insertion order, so it is an association list; \<open>d[k] = v\<close> is \<open>AList.update\<close>.
\<close>

datatype pyval =
    PNone
  | PBool bool
  | PNum real
  | PStr string
  | PList "pyval list"
  | PDict "(string \<times> pyval) list"

type_synonym dict = "(string \<times> pyval) list"

fun truthy :: "pyval \<Rightarrow> bool" where
  "truthy PNone = False"
| "truthy (PBool b) = b"
| "truthy (PNum x) = (x \<noteq> 0)"
| "truthy (PStr s) = (s \<noteq> [])"
| "truthy (PList xs) = (xs \<noteq> [])"
| "truthy (PDict d) = (d \<noteq> [])"

definition opt_str :: "string option \<Rightarrow> pyval" where
  "opt_str x = (case x of None \<Rightarrow> PNone | Some s \<Rightarrow> PStr s)"

definition startswith :: "string \<Rightarrow> string \<Rightarrow> bool" where
  "startswith s p = (take (length p) s = p)"

fun contains :: "string \<Rightarrow> string \<Rightarrow> bool" where
  "contains [] p = (p = [])"
| "contains (c # s) p = (startswith (c # s) p \<or> contains s p)"

subsection \<open>Requests, responses, errors\<close>

datatype http_verb = GET | HEAD | POST

type_synonym http_headers = "(string \<times> string option) list"

text \<open>
  One call of \<open>requests.get\<close>, \<open>requests.head\<close> or \<open>requests.post\<close>: the URL, the
  \<open>headers\<close> keyword, the \<open>data\<close> keyword (POST only) and the \<open>verify\<close> keyword when the
  client passes one.
\<close>

record request =
  meth :: http_verb
  req_url :: string
  req_headers :: http_headers
  data :: "string option"
  verify_kw :: "pyval option"

text \<open>
  What the client reads of a \<open>requests.Response\<close>: \<open>status_code\<close>, \<open>headers.get\<close>,
  \<open>links.get\<close> (a link of \<open>requests\<close> is a dictionary that always has the key \<open>url\<close>, so
  it is truthy and stands here as that URL), \<open>content\<close>, and \<open>json()\<close>, which is \<open>None\<close>
  when the body does not parse and \<open>json()\<close> raises \<open>ValueError\<close>.
\<close>

record response =
  status_code :: int
  headers :: "string \<Rightarrow> string option"
  links :: "string \<Rightarrow> string option"
  content :: string
  json :: "pyval option"

datatype error =
    AcmeError response
  | AcmeError_invalid_json
  | AcmeError_wrapped error
  | AccountAlreadyExistsError response "string option"
  | AttributeError
  | KeyError string
  | TypeError
  | ValueError
  | CollaboratorError string

text \<open>
  \<open>AcmeError\<close> is raised with a response, with the message of \<open>_json\<close>, or (in
  \<open>get_authorization\<close>) with a caught exception. \<open>CollaboratorError\<close> stands for whatever
  the transport or the signing functions raise themselves.
\<close>

datatype registration_result = RegistrationResult pyval "string option" pyval
datatype new_authorization_result = NewAuthorizationResult pyval "string option"
datatype issuance_result = IssuanceResult string "string option" "string option"

subsection \<open>Client, account, state\<close>

record account =
  key :: string
  uri :: "string option"

record acme =
  url :: string
  directory :: string
  verify :: pyval

datatype event =
    Http request "error + response"
  | SignRequest string dict dict pyval
  | SignRequestV2 string dict pyval

text \<open>
  The state holds the account object the client was built with (the caller keeps a
  reference to the same object), the dictionaries that callers pass by reference
  (\<open>objects\<close>, with \<open>next_ref\<close> the first unused reference) and the trace of the calls made
  to the transport and to the signing functions, oldest first.
\<close>

record state =
  account :: account
  objects :: "nat \<Rightarrow> dict"
  next_ref :: nat
  trace :: "event list"

record env =
  get_version :: string
  generate_header :: "string \<Rightarrow> error + dict"
  sign_request :: "string \<Rightarrow> dict \<Rightarrow> dict \<Rightarrow> pyval \<Rightarrow> error + string"
  sign_request_v2 :: "string \<Rightarrow> dict \<Rightarrow> pyval \<Rightarrow> error + string"
  urlparse_path :: "string \<Rightarrow> error + string"
  urljoin :: "string \<Rightarrow> string \<Rightarrow> error + string"
  requests :: "event list \<Rightarrow> request \<Rightarrow> error + response"

type_synonym 'a io = "state \<Rightarrow> (error + 'a) \<times> state"

definition ret :: "'a \<Rightarrow> 'a io" where
  "ret x = (\<lambda>s. (Inr x, s))"

definition raise :: "error \<Rightarrow> 'a io" where
  "raise e = (\<lambda>s. (Inl e, s))"

definition lift :: "error + 'a \<Rightarrow> 'a io" where
  "lift r = (\<lambda>s. (r, s))"

definition io_bind :: "'a io \<Rightarrow> ('a \<Rightarrow> 'b io) \<Rightarrow> 'b io" where
  "io_bind m f = (\<lambda>s. case m s of (Inl e, s') \<Rightarrow> (Inl e, s') | (Inr x, s') \<Rightarrow> f x s')"

definition get_key :: "string io" where
  "get_key = (\<lambda>s. (Inr (key (account s)), s))"

definition get_uri :: "string option io" where
  "get_uri = (\<lambda>s. (Inr (uri (account s)), s))"

definition set_uri :: "string option \<Rightarrow> unit io" where
  "set_uri u = (\<lambda>s. (Inr (), s\<lparr>account := (account s)\<lparr>uri := u\<rparr>\<rparr>))"

definition requests_call :: "env \<Rightarrow> request \<Rightarrow> response io" where
  "requests_call E rq =
     (\<lambda>s. let out = requests E (trace s) rq in (out, s\<lparr>trace := trace s @ [Http rq out]\<rparr>))"

definition call_sign_request :: "env \<Rightarrow> string \<Rightarrow> dict \<Rightarrow> dict \<Rightarrow> pyval \<Rightarrow> string io" where
  "call_sign_request E k header protected body =
     (\<lambda>s. (sign_request E k header protected body,
           s\<lparr>trace := trace s @ [SignRequest k header protected body]\<rparr>))"

definition call_sign_request_v2 :: "env \<Rightarrow> string \<Rightarrow> dict \<Rightarrow> pyval \<Rightarrow> string io" where
  "call_sign_request_v2 E k protected body =
     (\<lambda>s. (sign_request_v2 E k protected body,
           s\<lparr>trace := trace s @ [SignRequestV2 k protected body]\<rparr>))"

subsection \<open>Helpers of the module\<close>

definition DEFAULT_HEADERS :: "env \<Rightarrow> http_headers" where
  "DEFAULT_HEADERS E =
     [(''User-Agent'',
       Some (''automatoes '' @ get_version E @ '' (https://candango.org/p/automatoes)''))]"

definition dict_update :: "('k \<times> 'v) list \<Rightarrow> ('k \<times> 'v) list \<Rightarrow> ('k \<times> 'v) list" where
  "dict_update d other = fold (\<lambda>(k, v). AList.update k v) other d"

definition merge_headers :: "http_headers \<Rightarrow> http_headers option \<Rightarrow> http_headers" where
  "merge_headers hs extra =
     (case extra of
        None \<Rightarrow> hs
      | Some h \<Rightarrow> if h = [] then hs else dict_update hs h)"

definition verify_kwarg :: "acme \<Rightarrow> pyval option" where
  "verify_kwarg c = (if truthy (verify c) then Some (verify c) else None)"

definition response_json :: "response \<Rightarrow> error + pyval" where
  "response_json r = (case json r of None \<Rightarrow> Inl ValueError | Some j \<Rightarrow> Inr j)"

definition json_of :: "response \<Rightarrow> error + pyval" where
  "json_of r = (case json r of None \<Rightarrow> Inl AcmeError_invalid_json | Some j \<Rightarrow> Inr j)"

text \<open>\<open>x[k]\<close> and \<open>k in x\<close> for a string \<open>k\<close> and a parsed JSON value \<open>x\<close>.\<close>

fun subscript :: "pyval \<Rightarrow> string \<Rightarrow> error + pyval" where
  "subscript (PDict d) k = (case map_of d k of None \<Rightarrow> Inl (KeyError k) | Some v \<Rightarrow> Inr v)"
| "subscript _ k = Inl TypeError"

fun py_in :: "string \<Rightarrow> pyval \<Rightarrow> error + bool" where
  "py_in k (PDict d) = Inr (k \<in> set (map fst d))"
| "py_in k (PList xs) = Inr (PStr k \<in> set xs)"
| "py_in k (PStr s) = Inr (contains s k)"
| "py_in k _ = Inl TypeError"

text \<open>\<open>str(n).startswith("2")\<close> for an integer status code.\<close>

definition digit_char :: "nat \<Rightarrow> char" where
  "digit_char d = char_of (48 + d)"

fun str_nat :: "nat \<Rightarrow> string" where
  "str_nat n = (if n < 10 then [digit_char n] else str_nat (n div 10) @ [digit_char (n mod 10)])"

declare str_nat.simps [simp del]

definition str_int :: "int \<Rightarrow> string" where
  "str_int i = (if i < 0 then CHR ''-'' # str_nat (nat (- i)) else str_nat (nat i))"

definition status_2xx :: "response \<Rightarrow> bool" where
  "status_2xx r = startswith (str_int (status_code r)) ''2''"

subsection \<open>Class \<open>Acme\<close>\<close>

definition path :: "env \<Rightarrow> acme \<Rightarrow> pyval \<Rightarrow> error + string" where
  "path E c p =
     (case p of
        PStr q \<Rightarrow>
          (if startswith q ''http''
           then (case urlparse_path E q of Inl e \<Rightarrow> Inl e | Inr q' \<Rightarrow> urljoin E (url c) q')
           else urljoin E (url c) q)
      | _ \<Rightarrow> Inl AttributeError)"

definition get :: "env \<Rightarrow> acme \<Rightarrow> pyval \<Rightarrow> http_headers option \<Rightarrow> response io" where
  "get E c p hs =
     (let hdrs = merge_headers (DEFAULT_HEADERS E) hs in
      io_bind (lift (path E c p)) (\<lambda>u.
      requests_call E \<lparr>meth = GET, req_url = u, req_headers = hdrs, data = None,
                       verify_kw = verify_kwarg c\<rparr>))"

definition get_directory :: "env \<Rightarrow> acme \<Rightarrow> response io" where
  "get_directory E c = get E c (PStr ''/directory'') None"

definition get_nonce :: "env \<Rightarrow> acme \<Rightarrow> string option io" where
  "get_nonce E c =
     io_bind (get E c (PStr ''/directory'') None) (\<lambda>r. ret (headers r ''Replay-Nonce''))"

definition get_headers :: "env \<Rightarrow> acme \<Rightarrow> (dict \<times> dict) io" where
  "get_headers E c =
     io_bind get_key (\<lambda>k.
     io_bind (lift (generate_header E k)) (\<lambda>header.
     io_bind (get_nonce E c) (\<lambda>nonce.
     ret (header, AList.update ''nonce'' (opt_str nonce) header))))"

definition post :: "env \<Rightarrow> acme \<Rightarrow> pyval \<Rightarrow> pyval \<Rightarrow> http_headers option \<Rightarrow> response io" where
  "post E c p body hs =
     (let hdrs = merge_headers
                   (AList.update ''Content-Type'' (Some ''application/json'') (DEFAULT_HEADERS E))
                   hs in
      io_bind (get_headers E c) (\<lambda>(header, protected).
      io_bind get_key (\<lambda>k.
      io_bind (call_sign_request E k header protected body) (\<lambda>signed.
      io_bind (lift (path E c p)) (\<lambda>u.
      requests_call E \<lparr>meth = POST, req_url = u, req_headers = hdrs, data = Some signed,
                       verify_kw = verify_kwarg c\<rparr>)))))"

subsection \<open>Class \<open>AcmeV2\<close>: transport, directory, nonce\<close>

definition head :: "env \<Rightarrow> acme \<Rightarrow> pyval \<Rightarrow> http_headers option \<Rightarrow> response io" where
  "head E c p hs =
     (let hdrs = merge_headers (DEFAULT_HEADERS E) hs in
      io_bind (lift (path E c p)) (\<lambda>u.
      requests_call E \<lparr>meth = HEAD, req_url = u, req_headers = hdrs, data = None,
                       verify_kw = verify_kwarg c\<rparr>))"

definition get_directory_v2 :: "env \<Rightarrow> acme \<Rightarrow> response io" where
  "get_directory_v2 E c = get E c (PStr (''/'' @ directory c)) None"

definition url_from_directory :: "env \<Rightarrow> acme \<Rightarrow> string \<Rightarrow> pyval io" where
  "url_from_directory E c what_url =
     io_bind (get_directory_v2 E c) (\<lambda>response.
     if status_code response = 200
     then io_bind (lift (response_json response)) (\<lambda>j. lift (subscript j what_url))
     else ret PNone)"

definition terms_from_directory :: "env \<Rightarrow> acme \<Rightarrow> pyval io" where
  "terms_from_directory E c =
     io_bind (get_directory_v2 E c) (\<lambda>response.
     if status_code response = 200
     then
       io_bind (lift (response_json response)) (\<lambda>j1.
       io_bind (lift (py_in ''meta'' j1)) (\<lambda>has_meta.
       if has_meta
       then
         io_bind (lift (response_json response)) (\<lambda>j2.
         io_bind (lift (subscript j2 ''meta'')) (\<lambda>meta.
         io_bind (lift (py_in ''termsOfService'' meta)) (\<lambda>has_terms.
         if has_terms
         then
           io_bind (lift (response_json response)) (\<lambda>j3.
           io_bind (lift (subscript j3 ''meta'')) (\<lambda>meta'.
           lift (subscript meta' ''termsOfService'')))
         else ret PNone)))
       else ret PNone))
     else ret PNone)"

definition get_nonce_v2 :: "env \<Rightarrow> acme \<Rightarrow> string option io" where
  "get_nonce_v2 E c =
     io_bind (url_from_directory E c ''newNonce'') (\<lambda>u.
     io_bind (head E c u (Some [(''resource'', Some ''new-reg''), (''payload'', None)])) (\<lambda>r.
     ret (headers r ''Replay-Nonce'')))"

definition get_headers_v2 :: "env \<Rightarrow> acme \<Rightarrow> string option \<Rightarrow> dict io" where
  "get_headers_v2 E c u =
     io_bind get_key (\<lambda>k.
     io_bind (lift (generate_header E k)) (\<lambda>header.
     io_bind (get_nonce_v2 E c) (\<lambda>nonce.
     let protected_header = AList.update ''nonce'' (opt_str nonce) header in
     ret (case u of
            None \<Rightarrow> protected_header
          | Some u' \<Rightarrow> AList.update ''url'' (PStr u') protected_header))))"

definition post_v2 :: "env \<Rightarrow> acme \<Rightarrow> pyval \<Rightarrow> pyval \<Rightarrow> http_headers option \<Rightarrow> response io" where
  "post_v2 E c p body hs =
     (let hdrs = merge_headers
                   (AList.update ''Content-Type'' (Some ''application/jose+json'')
                      (DEFAULT_HEADERS E))
                   hs in
      io_bind (lift (path E c p)) (\<lambda>u.
      io_bind (get_headers_v2 E c (Some u)) (\<lambda>protected.
      io_bind get_key (\<lambda>k.
      io_bind (call_sign_request_v2 E k protected body) (\<lambda>signed.
      io_bind (lift (path E c p)) (\<lambda>u'.
      requests_call E \<lparr>meth = POST, req_url = u', req_headers = hdrs, data = Some signed,
                       verify_kw = verify_kwarg c\<rparr>))))))"

subsection \<open>Method dispatch\<close>

text \<open>
  \<open>AcmeV2\<close> inherits from \<open>Acme\<close> and overrides \<open>get_headers\<close>, \<open>get_directory\<close>,
  \<open>get_nonce\<close>, \<open>register\<close> and \<open>post\<close>. A call \<open>self.post(...)\<close> inside an inherited
  method reaches the method of the object's class.
\<close>

datatype version = V1 | V2

definition self_post ::
  "version \<Rightarrow> env \<Rightarrow> acme \<Rightarrow> pyval \<Rightarrow> pyval \<Rightarrow> http_headers option \<Rightarrow> response io" where
  "self_post ver = (case ver of V1 \<Rightarrow> post | V2 \<Rightarrow> post_v2)"

definition self_get_directory :: "version \<Rightarrow> env \<Rightarrow> acme \<Rightarrow> response io" where
  "self_get_directory ver = (case ver of V1 \<Rightarrow> get_directory | V2 \<Rightarrow> get_directory_v2)"

definition self_get_nonce :: "version \<Rightarrow> env \<Rightarrow> acme \<Rightarrow> string option io" where
  "self_get_nonce ver = (case ver of V1 \<Rightarrow> get_nonce | V2 \<Rightarrow> get_nonce_v2)"

subsection \<open>The operations\<close>

definition register_payload :: "string \<Rightarrow> pyval" where
  "register_payload email =
     PDict [(''resource'', PStr ''new-reg''),
            (''contact'', PList [PStr (''mailto:'' @ email)])]"

definition register :: "env \<Rightarrow> acme \<Rightarrow> string \<Rightarrow> registration_result io" where
  "register E c email =
     io_bind (post E c (PStr ''/acme/new-reg'') (register_payload email) None) (\<lambda>response.
     let location = headers response ''Location'' in
     if status_code response = 201
     then
       io_bind (set_uri location) (\<lambda>_.
       let terms = links response ''terms-of-service'' in
       io_bind (lift (json_of response)) (\<lambda>contents.
       ret (RegistrationResult contents location (opt_str terms))))
     else if status_code response = 409
     then raise (AccountAlreadyExistsError response location)
     else raise (AcmeError response))"

definition register_payload_v2 :: "string \<Rightarrow> pyval" where
  "register_payload_v2 email =
     PDict [(''termsOfServiceAgreed'', PBool True),
            (''contact'', PList [PStr (''mailto:'' @ email)])]"

definition register_v2 :: "env \<Rightarrow> acme \<Rightarrow> string \<Rightarrow> registration_result io" where
  "register_v2 E c email =
     io_bind (url_from_directory E c ''newAccount'') (\<lambda>u.
     io_bind (post_v2 E c u (register_payload_v2 email) None) (\<lambda>response.
     let location = headers response ''Location'' in
     if status_code response = 201
     then
       io_bind (set_uri location) (\<lambda>_.
       io_bind (terms_from_directory E c) (\<lambda>terms.
       io_bind (lift (json_of response)) (\<lambda>contents.
       ret (RegistrationResult contents location terms))))
     else if status_code response = 409
     then raise (AccountAlreadyExistsError response location)
     else raise (AcmeError response)))"

definition self_register ::
  "version \<Rightarrow> env \<Rightarrow> acme \<Rightarrow> string \<Rightarrow> registration_result io" where
  "self_register ver = (case ver of V1 \<Rightarrow> register | V2 \<Rightarrow> register_v2)"

definition get_registration :: "version \<Rightarrow> env \<Rightarrow> acme \<Rightarrow> pyval io" where
  "get_registration ver E c =
     io_bind get_uri (\<lambda>u.
     io_bind (self_post ver E c (opt_str u) (PDict [(''resource'', PStr ''reg'')]) None)
       (\<lambda>response.
     if status_2xx response then lift (json_of response) else raise (AcmeError response)))"

text \<open>
  \<open>update_registration\<close> gets \<open>None\<close> or a reference to a dictionary of the caller.
  \<open>params or {}\<close> keeps the reference when the dictionary is non-empty and makes a new
  dictionary otherwise; the assignment writes through the reference.
\<close>

definition new_dict :: "nat io" where
  "new_dict =
     (\<lambda>s. (Inr (next_ref s),
           s\<lparr>objects := (objects s)(next_ref s := []), next_ref := Suc (next_ref s)\<rparr>))"

definition or_new_dict :: "nat option \<Rightarrow> nat io" where
  "or_new_dict params =
     (\<lambda>s. case params of
            None \<Rightarrow> new_dict s
          | Some r \<Rightarrow> if objects s r = [] then new_dict s else (Inr r, s))"

definition setitem :: "nat \<Rightarrow> string \<Rightarrow> pyval \<Rightarrow> unit io" where
  "setitem r k v = (\<lambda>s. (Inr (), s\<lparr>objects := (objects s)(r := AList.update k v (objects s r))\<rparr>))"

definition deref :: "nat \<Rightarrow> dict io" where
  "deref r = (\<lambda>s. (Inr (objects s r), s))"

definition update_registration :: "version \<Rightarrow> env \<Rightarrow> acme \<Rightarrow> nat option \<Rightarrow> bool io" where
  "update_registration ver E c params =
     io_bind (or_new_dict params) (\<lambda>p.
     io_bind (setitem p ''resource'' (PStr ''reg'')) (\<lambda>_.
     io_bind get_uri (\<lambda>u.
     io_bind (deref p) (\<lambda>d.
     io_bind (self_post ver E c (opt_str u) (PDict d) None) (\<lambda>response.
     if status_2xx response then ret True else raise (AcmeError response))))))"

definition new_authorization ::
  "version \<Rightarrow> env \<Rightarrow> acme \<Rightarrow> pyval \<Rightarrow> new_authorization_result io" where
  "new_authorization ver E c domain =
     io_bind (self_post ver E c (PStr ''/acme/new-authz'')
                (PDict [(''resource'', PStr ''new-authz''),
                        (''identifier'', PDict [(''type'', PStr ''dns''), (''value'', domain)])])
                None) (\<lambda>response.
     if status_code response = 201
     then io_bind (lift (json_of response)) (\<lambda>contents.
          ret (NewAuthorizationResult contents (headers response ''Location'')))
     else raise (AcmeError response))"

definition validate_authorization ::
  "version \<Rightarrow> env \<Rightarrow> acme \<Rightarrow> pyval \<Rightarrow> pyval \<Rightarrow> pyval \<Rightarrow> bool io" where
  "validate_authorization ver E c u ty key_authorization =
     io_bind (self_post ver E c u
                (PDict [(''resource'', PStr ''challenge''),
                        (''type'', ty),
                        (''keyAuthorization'', key_authorization)])
                None) (\<lambda>response.
     if status_2xx response then ret True else raise (AcmeError response))"

definition get_authorization :: "env \<Rightarrow> acme \<Rightarrow> pyval \<Rightarrow> pyval io" where
  "get_authorization E c u =
     io_bind (get E c u None) (\<lambda>response.
     case response_json response of
       Inl e \<Rightarrow> raise (AcmeError_wrapped e)
     | Inr j \<Rightarrow> ret j)"

definition issue_certificate_payload :: "pyval \<Rightarrow> pyval" where
  "issue_certificate_payload csr = PDict [(''resource'', PStr ''new-cert''), (''csr'', csr)]"

definition issue_certificate :: "version \<Rightarrow> env \<Rightarrow> acme \<Rightarrow> pyval \<Rightarrow> issuance_result io" where
  "issue_certificate ver E c csr =
     io_bind (self_post ver E c (PStr ''/acme/new-cert'') (issue_certificate_payload csr)
                (Some [(''Accept'', Some ''application/pkix-cert'')])) (\<lambda>response.
     if status_code response = 201
     then
       (case links response ''up'' of
          None \<Rightarrow>
            ret (IssuanceResult (content response) (headers response ''Location'') None)
        | Some chain_url \<Rightarrow>
            io_bind (requests_call E \<lparr>meth = GET, req_url = chain_url,
                                       req_headers = DEFAULT_HEADERS E, data = None,
                                       verify_kw = None\<rparr>) (\<lambda>chain.
            ret (IssuanceResult (content response) (headers response ''Location'')
                   (Some (content chain)))))
     else raise (AcmeError response))"

definition revoke_certificate_payload :: "pyval \<Rightarrow> pyval" where
  "revoke_certificate_payload cert =
     PDict [(''resource'', PStr ''revoke-cert''), (''certificate'', cert)]"

definition revoke_certificate :: "version \<Rightarrow> env \<Rightarrow> acme \<Rightarrow> pyval \<Rightarrow> bool io" where
  "revoke_certificate ver E c cert =
     io_bind (self_post ver E c (PStr ''/acme/revoke-cert'') (revoke_certificate_payload cert)
                None) (\<lambda>response.
     if status_code response = 200 then ret True else raise (AcmeError response))"

subsection \<open>Sequences of calls\<close>

text \<open>
  A caller makes one call after another on the same client and may catch what a call
  raises, so a sequence of calls threads the state and drops the results.
\<close>

datatype op =
    GetDirectory
  | GetNonce
  | Register string
  | GetRegistration
  | UpdateRegistration "nat option"
  | NewAuthorization pyval
  | ValidateAuthorization pyval pyval pyval
  | GetAuthorization pyval
  | IssueCertificate pyval
  | RevokeCertificate pyval

fun exec_op :: "version \<Rightarrow> env \<Rightarrow> acme \<Rightarrow> op \<Rightarrow> state \<Rightarrow> state" where
  "exec_op ver E c GetDirectory s = snd (self_get_directory ver E c s)"
| "exec_op ver E c GetNonce s = snd (self_get_nonce ver E c s)"
| "exec_op ver E c (Register email) s = snd (self_register ver E c email s)"
| "exec_op ver E c GetRegistration s = snd (get_registration ver E c s)"
| "exec_op ver E c (UpdateRegistration params) s = snd (update_registration ver E c params s)"
| "exec_op ver E c (NewAuthorization domain) s = snd (new_authorization ver E c domain s)"
| "exec_op ver E c (ValidateAuthorization u ty ka) s =
     snd (validate_authorization ver E c u ty ka s)"
| "exec_op ver E c (GetAuthorization u) s = snd (get_authorization E c u s)"
| "exec_op ver E c (IssueCertificate csr) s = snd (issue_certificate ver E c csr s)"
| "exec_op ver E c (RevokeCertificate cert) s = snd (revoke_certificate ver E c cert s)"

fun exec_ops :: "version \<Rightarrow> env \<Rightarrow> acme \<Rightarrow> op list \<Rightarrow> state \<Rightarrow> state" where
  "exec_ops ver E c [] s = s"
| "exec_ops ver E c (x # xs) s = exec_ops ver E c xs (exec_op ver E c x s)"

subsection \<open>Reading the trace\<close>

text \<open>
  \<open>register_post\<close> is the signed POST that \<open>register\<close> starts with: in version 1 to the
  fixed path, in version 2 to the \<open>newAccount\<close> entry of the directory.
\<close>

definition register_post :: "version \<Rightarrow> env \<Rightarrow> acme \<Rightarrow> string \<Rightarrow> response io" where
  "register_post ver E c email =
     (case ver of
        V1 \<Rightarrow> post E c (PStr ''/acme/new-reg'') (register_payload email) None
      | V2 \<Rightarrow> io_bind (url_from_directory E c ''newAccount'') (\<lambda>u.
              post_v2 E c u (register_payload_v2 email) None))"

text \<open>
  An event is in order after the event before it when: a call of a signing function comes
  right after a nonce fetch that got a response (a GET in version 1, a HEAD in version 2)
  and its protected header holds under \<open>nonce\<close> what that response has under
  \<open>Replay-Nonce\<close>; a POST comes right after the call of the signing function whose
  result is its body.
\<close>

fun in_order :: "env \<Rightarrow> event option \<Rightarrow> event \<Rightarrow> bool" where
  "in_order E prev (SignRequest k header protected body) =
     (case prev of
        Some (Http rq (Inr r)) \<Rightarrow>
          meth rq = GET \<and> map_of protected ''nonce'' = Some (opt_str (headers r ''Replay-Nonce''))
      | _ \<Rightarrow> False)"
| "in_order E prev (SignRequestV2 k protected body) =
     (case prev of
        Some (Http rq (Inr r)) \<Rightarrow>
          meth rq = HEAD \<and> map_of protected ''nonce'' = Some (opt_str (headers r ''Replay-Nonce''))
      | _ \<Rightarrow> False)"
| "in_order E prev (Http rq out) =
     (if meth rq = POST
      then (case prev of
              Some (SignRequest k header protected body) \<Rightarrow>
                (case sign_request E k header protected body of
                   Inr signed \<Rightarrow> data rq = Some signed
                 | Inl e \<Rightarrow> False)
            | Some (SignRequestV2 k protected body) \<Rightarrow>
                (case sign_request_v2 E k protected body of
                   Inr signed \<Rightarrow> data rq = Some signed
                 | Inl e \<Rightarrow> False)
            | _ \<Rightarrow> False)
      else True)"

fun nonce_per_request :: "env \<Rightarrow> event option \<Rightarrow> event list \<Rightarrow> bool" where
  "nonce_per_request E prev [] = True"
| "nonce_per_request E prev (e # es) = (in_order E prev e \<and> nonce_per_request E (Some e) es)"

fun signed_nonces :: "event list \<Rightarrow> pyval option list" where
  "signed_nonces [] = []"
| "signed_nonces (SignRequest k header protected body # es) =
     map_of protected ''nonce'' # signed_nonces es"
| "signed_nonces (SignRequestV2 k protected body # es) =
     map_of protected ''nonce'' # signed_nonces es"
| "signed_nonces (Http rq out # es) = signed_nonces es"

fun signed_payloads :: "event list \<Rightarrow> pyval list" where
  "signed_payloads [] = []"
| "signed_payloads (SignRequest k header protected body # es) = body # signed_payloads es"
| "signed_payloads (SignRequestV2 k protected body # es) = body # signed_payloads es"
| "signed_payloads (Http rq out # es) = signed_payloads es"

fun post_targets :: "event list \<Rightarrow> string list" where
  "post_targets [] = []"
| "post_targets (Http rq out # es) =
     (if meth rq = POST then req_url rq # post_targets es else post_targets es)"
| "post_targets (e # es) = post_targets es"

subsection \<open>Conditions on actions\<close>

text \<open>
  \<open>only_trace m\<close>: the action \<open>m\<close> changes nothing of the state but the trace, which it
  extends. \<open>preserves E m\<close>: the action keeps \<open>nonce_per_request\<close> of the whole trace.
\<close>

definition only_trace :: "'a io \<Rightarrow> bool" where
  "only_trace m = (\<forall>s. \<exists>tr. snd (m s) = s\<lparr>trace := trace s @ tr\<rparr>)"

definition preserves :: "env \<Rightarrow> 'a io \<Rightarrow> bool" where
  "preserves E m =
     (\<forall>s. nonce_per_request E None (trace s) \<longrightarrow> nonce_per_request E None (trace (snd (m s))))"

fun is_register :: "op \<Rightarrow> bool" where
  "is_register (Register email) = True"
| "is_register _ = False"

text \<open>No two neighbours of a list are equal.\<close>

fun no_reuse :: "'a list \<Rightarrow> bool" where
  "no_reuse (x # y # zs) = (x \<noteq> y \<and> no_reuse (y # zs))"
| "no_reuse _ = True"

subsection \<open>A sample environment\<close>

text \<open>
  A concrete client and server on which the theorems below are exercised. The server
  answers every GET and HEAD with the directory and the nonce \<open>nonce-1\<close>, and every POST
  with a given response. The two URL functions are stand-ins that agree with
  \<open>urllib.parse\<close> on the inputs used here (an \<open>https\<close> base URL, a path that starts
  with a slash).
\<close>

definition sample_directory :: pyval where
  "sample_directory =
     PDict [(''newNonce'', PStr ''https://ca.example/acme/new-nonce''),
            (''newAccount'', PStr ''https://ca.example/acme/new-acct''),
            (''newAuthz'', PStr ''https://ca.example/acme/v2/authz''),
            (''meta'', PDict [(''termsOfService'', PStr ''https://ca.example/terms'')])]"

definition fetch_reply :: response where
  "fetch_reply =
     \<lparr>status_code = 200, headers = [''Replay-Nonce'' \<mapsto> ''nonce-1''], links = Map.empty,
      content = ''fetched-body'', json = Some sample_directory\<rparr>"

definition reply :: "int \<Rightarrow> (string \<Rightarrow> string option) \<Rightarrow> pyval option \<Rightarrow> response" where
  "reply st lnk body =
     \<lparr>status_code = st, headers = [''Location'' \<mapsto> ''https://ca/cert/123''],
      links = lnk, content = ''response-body'', json = body\<rparr>"

definition sample_urlparse_path :: "string \<Rightarrow> error + string" where
  "sample_urlparse_path u =
     Inr (takeWhile (\<lambda>ch. ch \<noteq> CHR ''?'' \<and> ch \<noteq> CHR ''#'')
            (dropWhile (\<lambda>ch. ch \<noteq> CHR ''/'')
               (if startswith u ''https://'' then drop 8 u
                else if startswith u ''http://'' then drop 7 u else u)))"

definition sample_urljoin :: "string \<Rightarrow> string \<Rightarrow> error + string" where
  "sample_urljoin b p = Inr (take 8 b @ takeWhile (\<lambda>ch. ch \<noteq> CHR ''/'') (drop 8 b) @ p)"

definition sample_env :: "(event list \<Rightarrow> request \<Rightarrow> error + response) \<Rightarrow> env" where
  "sample_env srv =
     \<lparr>get_version = ''0.9.1'',
      generate_header = (\<lambda>k. Inr [(''alg'', PStr ''RS256''), (''jwk'', PStr k)]),
      sign_request = (\<lambda>k h p b. Inr ''signed-v1''),
      sign_request_v2 = (\<lambda>k p b. Inr ''signed-v2''),
      urlparse_path = sample_urlparse_path,
      urljoin = sample_urljoin,
      requests = srv\<rparr>"

definition answering :: "response \<Rightarrow> event list \<Rightarrow> request \<Rightarrow> error + response" where
  "answering r tr rq = (if meth rq = POST then Inr r else Inr fetch_reply)"

definition sample_acme :: acme where
  "sample_acme = \<lparr>url = ''https://ca.example/'', directory = ''directory'', verify = PNone\<rparr>"

definition sample_state :: state where
  "sample_state =
     \<lparr>account = \<lparr>key = ''account-key'', uri = None\<rparr>, objects = (\<lambda>_. []), next_ref = 1,
      trace = []\<rparr>"

text \<open>A transport that fails, and a server that never sends \<open>Replay-Nonce\<close>.\<close>

definition refusing :: "event list \<Rightarrow> request \<Rightarrow> error + response" where
  "refusing tr rq = Inl (CollaboratorError ''connection refused'')"

definition without_nonce :: "event list \<Rightarrow> request \<Rightarrow> error + response" where
  "without_nonce tr rq = Inr (reply 200 Map.empty (Some sample_directory))"

section \<open>Properties\<close>

subsection \<open>Unfolding\<close>

lemmas io_defs = io_bind_def ret_def raise_def lift_def get_key_def get_uri_def set_uri_def
  requests_call_def call_sign_request_def call_sign_request_v2_def

lemmas client_defs = self_post_def post_def post_v2_def get_headers_def get_headers_v2_def
  get_nonce_def get_nonce_v2_def get_def head_def path_def url_from_directory_def
  get_directory_v2_def get_directory_def merge_headers_def verify_kwarg_def
  DEFAULT_HEADERS_def response_json_def json_of_def opt_str_def startswith_def Let_def

lemmas sample_defs = sample_env_def answering_def sample_acme_def sample_state_def
  fetch_reply_def reply_def sample_urlparse_path_def sample_urljoin_def sample_directory_def

lemmas op_defs = self_register_def register_def register_v2_def register_post_def
  register_payload_def register_payload_v2_def terms_from_directory_def

lemmas eval_defs = io_defs client_defs sample_defs op_defs

lemmas exec_defs = revoke_certificate_def revoke_certificate_payload_def new_authorization_def

subsection \<open>Actions that only extend the trace\<close>

lemma only_trace_bind:
  assumes "only_trace m" and "\<And>x. only_trace (f x)"
  shows "only_trace (io_bind m f)"
  unfolding only_trace_def
proof
  fix s
  from assms(1) obtain tr1 where m: "snd (m s) = s\<lparr>trace := trace s @ tr1\<rparr>"
    unfolding only_trace_def by blast
  show "\<exists>tr. snd (io_bind m f s) = s\<lparr>trace := trace s @ tr\<rparr>"
  proof (cases "m s")
    case (Pair res s1)
    with m have s1: "s1 = s\<lparr>trace := trace s @ tr1\<rparr>" by simp
    show ?thesis
    proof (cases res)
      case (Inl e)
      with Pair s1 show ?thesis by (auto simp: io_bind_def)
    next
      case (Inr x)
      from assms(2) [of x] obtain tr2 where "snd (f x s1) = s1\<lparr>trace := trace s1 @ tr2\<rparr>"
        unfolding only_trace_def by blast
      with Pair Inr s1 have "snd (io_bind m f s) = s\<lparr>trace := trace s @ (tr1 @ tr2)\<rparr>"
        by (simp add: io_bind_def)
      then show ?thesis by blast
    qed
  qed
qed

lemma only_trace_basic:
  "only_trace (ret x)" "only_trace (raise e)" "only_trace (lift r)"
  "only_trace get_key" "only_trace get_uri" "only_trace (deref p)"
  by (auto simp: only_trace_def ret_def raise_def lift_def get_key_def get_uri_def deref_def
      intro: exI [of _ "[]"])

lemma only_trace_calls:
  "only_trace (requests_call E rq)"
  "only_trace (call_sign_request E k h p b)"
  "only_trace (call_sign_request_v2 E k p b)"
  by (auto simp: only_trace_def requests_call_def call_sign_request_def
      call_sign_request_v2_def Let_def)

lemma only_trace_if:
  "only_trace a \<Longrightarrow> only_trace b \<Longrightarrow> only_trace (if t then a else b)"
  by simp

lemma only_trace_sum_case:
  "(\<And>e. only_trace (f e)) \<Longrightarrow> (\<And>x. only_trace (g x))
     \<Longrightarrow> only_trace (case r of Inl e \<Rightarrow> f e | Inr x \<Rightarrow> g x)"
  by (cases r) simp_all

lemma only_trace_option_case:
  "only_trace a \<Longrightarrow> (\<And>x. only_trace (g x))
     \<Longrightarrow> only_trace (case r of None \<Rightarrow> a | Some x \<Rightarrow> g x)"
  by (cases r) simp_all

lemmas only_trace_intros = only_trace_bind only_trace_basic only_trace_calls only_trace_if

lemma only_trace_get: "only_trace (get E c p hs)"
  unfolding get_def Let_def by (intro only_trace_intros)

lemma only_trace_head: "only_trace (head E c p hs)"
  unfolding head_def Let_def by (intro only_trace_intros)

lemma only_trace_url_from_directory: "only_trace (url_from_directory E c w)"
  unfolding url_from_directory_def get_directory_v2_def
  by (intro only_trace_intros only_trace_get)

lemma only_trace_terms_from_directory: "only_trace (terms_from_directory E c)"
  unfolding terms_from_directory_def get_directory_v2_def
  by (intro only_trace_intros only_trace_get)

lemma only_trace_get_nonce: "only_trace (self_get_nonce ver E c)"
  unfolding self_get_nonce_def get_nonce_def get_nonce_v2_def
  by (cases ver; simp; intro only_trace_intros only_trace_get only_trace_head
      only_trace_url_from_directory)

lemma only_trace_post: "only_trace (post E c p b hs)"
  unfolding post_def get_headers_def Let_def
  by (intro only_trace_intros only_trace_get_nonce [of V1, unfolded self_get_nonce_def, simplified]
      | simp only: split_def)+

lemma only_trace_post_v2: "only_trace (post_v2 E c p b hs)"
  unfolding post_v2_def get_headers_v2_def Let_def
  by (intro only_trace_intros only_trace_get_nonce [of V2, unfolded self_get_nonce_def, simplified])

lemma only_trace_self_post: "only_trace (self_post ver E c p b hs)"
  by (cases ver) (simp_all add: self_post_def only_trace_post only_trace_post_v2)

lemma only_trace_register_post: "only_trace (register_post ver E c email)"
  by (cases ver)
    (auto simp: register_post_def intro!: only_trace_intros only_trace_post only_trace_post_v2
      only_trace_url_from_directory)

lemma only_trace_frame:
  assumes "only_trace m"
  shows "account (snd (m s)) = account s" and "objects (snd (m s)) = objects s"
    and "next_ref (snd (m s)) = next_ref s"
proof -
  from assms obtain tr where "snd (m s) = s\<lparr>trace := trace s @ tr\<rparr>"
    unfolding only_trace_def by blast
  then show "account (snd (m s)) = account s" and "objects (snd (m s)) = objects s"
    and "next_ref (snd (m s)) = next_ref s"
    by simp_all
qed

lemma only_trace_frame_pair:
  assumes "only_trace m" and "m s = (res, s')"
  shows "account s' = account s \<and> objects s' = objects s \<and> next_ref s' = next_ref s"
  using only_trace_frame [OF assms(1), of s] assms(2) by simp

lemmas self_post_frame = only_trace_frame_pair [OF only_trace_self_post]

lemmas register_post_frame = only_trace_frame_pair [OF only_trace_register_post]

lemmas terms_from_directory_frame = only_trace_frame_pair [OF only_trace_terms_from_directory]

lemmas get_nonce_frame = only_trace_frame_pair [OF only_trace_get_nonce [of V1, unfolded self_get_nonce_def, simplified]]

lemmas get_nonce_v2_frame = only_trace_frame_pair [OF only_trace_get_nonce [of V2, unfolded self_get_nonce_def, simplified]]

subsection \<open>The end of the trace after a fetch\<close>

lemma get_last:
  assumes "get E c p hs s = (Inr r, s')"
  shows "\<exists>rq. trace s' = trace s @ [Http rq (Inr r)] \<and> meth rq = GET"
  using assms
  by (auto simp: get_def io_bind_def lift_def requests_call_def Let_def split: sum.splits)

lemma get_nonce_last:
  assumes "get_nonce E c s = (Inr n, s')"
  shows "\<exists>rq r. trace s' = trace s @ [Http rq (Inr r)] \<and> meth rq = GET
           \<and> headers r ''Replay-Nonce'' = n"
  using assms
  by (auto simp: get_nonce_def get_def io_bind_def lift_def ret_def requests_call_def Let_def
      split: sum.splits)

lemma head_last:
  assumes "head E c p hs s = (Inr r, s')"
  shows "\<exists>rq. trace s' = trace s @ [Http rq (Inr r)] \<and> meth rq = HEAD"
  using assms
  by (auto simp: head_def io_bind_def lift_def requests_call_def Let_def split: sum.splits)

lemma get_nonce_v2_last:
  assumes "get_nonce_v2 E c s = (Inr n, s')"
  shows "\<exists>tr rq r. trace s' = tr @ [Http rq (Inr r)] \<and> meth rq = HEAD
           \<and> headers r ''Replay-Nonce'' = n"
  using assms
  by (auto simp: get_nonce_v2_def io_bind_def ret_def split: sum.splits prod.splits
      dest!: head_last)

subsection \<open>Registration\<close>

lemma register_after_post:
  assumes "register_post ver E c email s = (Inr r, s1)"
  shows "self_register ver E c email s =
     (if status_code r = 201
      then (case ver of
              V1 \<Rightarrow> io_bind (set_uri (headers r ''Location'')) (\<lambda>_.
                    io_bind (lift (json_of r)) (\<lambda>contents.
                    ret (RegistrationResult contents (headers r ''Location'')
                           (opt_str (links r ''terms-of-service'')))))
            | V2 \<Rightarrow> io_bind (set_uri (headers r ''Location'')) (\<lambda>_.
                    io_bind (terms_from_directory E c) (\<lambda>terms.
                    io_bind (lift (json_of r)) (\<lambda>contents.
                    ret (RegistrationResult contents (headers r ''Location'') terms))))) s1
      else if status_code r = 409
      then (Inl (AccountAlreadyExistsError r (headers r ''Location'')), s1)
      else (Inl (AcmeError r), s1))"
proof (cases ver)
  case V1
  with assms have "post E c (PStr ''/acme/new-reg'') (register_payload email) None s = (Inr r, s1)"
    by (simp add: register_post_def)
  then have "register E c email s =
      (\<lambda>response. let location = headers response ''Location'' in
         if status_code response = 201
         then io_bind (set_uri location) (\<lambda>_.
              let terms = links response ''terms-of-service'' in
              io_bind (lift (json_of response)) (\<lambda>contents.
              ret (RegistrationResult contents location (opt_str terms))))
         else if status_code response = 409
         then raise (AccountAlreadyExistsError response location)
         else raise (AcmeError response)) r s1"
    unfolding register_def by (simp only: io_bind_def prod.case sum.case)
  with V1 show ?thesis
    by (simp add: self_register_def Let_def raise_def)
next
  case V2
  obtain res s0 where u: "url_from_directory E c ''newAccount'' s = (res, s0)"
    by (cases "url_from_directory E c ''newAccount'' s")
  with assms V2 obtain u' where res: "res = Inr u'"
    and p: "post_v2 E c u' (register_payload_v2 email) None s0 = (Inr r, s1)"
    by (cases res) (simp_all add: register_post_def io_bind_def)
  from u res p have "register_v2 E c email s =
      (\<lambda>response. let location = headers response ''Location'' in
         if status_code response = 201
         then io_bind (set_uri location) (\<lambda>_.
              io_bind (terms_from_directory E c) (\<lambda>terms.
              io_bind (lift (json_of response)) (\<lambda>contents.
              ret (RegistrationResult contents location terms))))
         else if status_code response = 409
         then raise (AccountAlreadyExistsError response location)
         else raise (AcmeError response)) r s1"
    unfolding register_v2_def by (simp only: io_bind_def prod.case sum.case)
  with V2 show ?thesis
    by (simp add: self_register_def Let_def raise_def)
qed

lemma register_post_failed:
  assumes "register_post ver E c email s = (Inl e, s1)"
  shows "self_register ver E c email s = (Inl e, s1)"
proof (cases ver)
  case V1
  with assms have "post E c (PStr ''/acme/new-reg'') (register_payload email) None s = (Inl e, s1)"
    by (simp add: register_post_def)
  then have "register E c email s = (Inl e, s1)"
    unfolding register_def by (simp only: io_bind_def prod.case sum.case)
  with V1 show ?thesis by (simp add: self_register_def)
next
  case V2
  obtain res s0 where u: "url_from_directory E c ''newAccount'' s = (res, s0)"
    by (cases "url_from_directory E c ''newAccount'' s")
  show ?thesis
  proof (cases res)
    case (Inl e')
    with u assms V2 have "e' = e" "s0 = s1"
      by (simp_all add: register_post_def io_bind_def)
    with u Inl have "register_v2 E c email s = (Inl e, s1)"
      unfolding register_v2_def by (simp only: io_bind_def prod.case sum.case)
    with V2 show ?thesis by (simp add: self_register_def)
  next
    case (Inr u')
    with u assms V2 have "post_v2 E c u' (register_payload_v2 email) None s0 = (Inl e, s1)"
      by (simp add: register_post_def io_bind_def)
    with u Inr have "register_v2 E c email s = (Inl e, s1)"
      unfolding register_v2_def by (simp only: io_bind_def prod.case sum.case)
    with V2 show ?thesis by (simp add: self_register_def)
  qed
qed

text \<open>
  Claim C1, as amended. In both versions, once the signed POST of \<open>register\<close> has got a
  response: with status 201 the client sets \<open>account.uri\<close> to the \<open>Location\<close> header and
  returns a \<open>RegistrationResult\<close> when the body parses as JSON (in version 2, after the
  lookup of the terms in the directory has returned), and raises the generic \<open>AcmeError\<close>
  when the body does not parse; with status 409 it raises \<open>AccountAlreadyExistsError\<close>
  with the \<open>Location\<close> header; with any other status it raises \<open>AcmeError\<close> with the
  response.
\<close>

theorem register_outcomes:
  assumes "register_post ver E c email s = (Inr r, s1)"
  shows
    "(status_code r = 201 \<and> ver = V1
        \<longrightarrow> self_register ver E c email s =
              (case json r of
                 None \<Rightarrow> Inl AcmeError_invalid_json
               | Some j \<Rightarrow> Inr (RegistrationResult j (headers r ''Location'')
                                 (opt_str (links r ''terms-of-service''))),
               s1\<lparr>account := (account s)\<lparr>uri := headers r ''Location''\<rparr>\<rparr>))
     \<and> (status_code r = 201 \<and> ver = V2
          \<and> terms_from_directory E c (s1\<lparr>account := (account s)\<lparr>uri := headers r ''Location''\<rparr>\<rparr>)
              = (Inr t, s2)
        \<longrightarrow> self_register ver E c email s =
              (case json r of
                 None \<Rightarrow> Inl AcmeError_invalid_json
               | Some j \<Rightarrow> Inr (RegistrationResult j (headers r ''Location'') t),
               s2)
            \<and> account s2 = (account s)\<lparr>uri := headers r ''Location''\<rparr>)
     \<and> (status_code r = 409
        \<longrightarrow> self_register ver E c email s =
              (Inl (AccountAlreadyExistsError r (headers r ''Location'')), s1))
     \<and> (status_code r \<noteq> 201 \<and> status_code r \<noteq> 409
        \<longrightarrow> self_register ver E c email s = (Inl (AcmeError r), s1))"
proof -
  from register_post_frame [OF assms] have s1: "account s1 = account s" by simp
  show ?thesis
    unfolding register_after_post [OF assms]
    using s1
    by (auto simp: io_bind_def set_uri_def lift_def ret_def json_of_def
        split: option.splits dest!: terms_from_directory_frame)
qed

theorem register_outcomes_witness:
  "fst (self_register V1
          (sample_env (answering (reply 201 Map.empty (Some (PDict [(''status'', PStr ''valid'')])))))
          sample_acme ''a@example.org'' sample_state)
     = Inr (RegistrationResult (PDict [(''status'', PStr ''valid'')]) (Some ''https://ca/cert/123'')
              PNone)
   \<and> fst (self_register V2
          (sample_env (answering (reply 201 Map.empty (Some (PDict [(''status'', PStr ''valid'')])))))
          sample_acme ''a@example.org'' sample_state)
     = Inr (RegistrationResult (PDict [(''status'', PStr ''valid'')]) (Some ''https://ca/cert/123'')
              (PStr ''https://ca.example/terms''))
   \<and> fst (self_register V2 (sample_env (answering (reply 409 Map.empty None)))
          sample_acme ''a@example.org'' sample_state)
     = Inl (AccountAlreadyExistsError (reply 409 Map.empty None) (Some ''https://ca/cert/123''))
   \<and> fst (self_register V1 (sample_env (answering (reply 500 Map.empty None)))
          sample_acme ''a@example.org'' sample_state)
     = Inl (AcmeError (reply 500 Map.empty None))"
proof -
  let ?ok = "reply 201 Map.empty (Some (PDict [(''status'', PStr ''valid'')]))"
  let ?mail = "''a@example.org''"
  have post: "register_post ver (sample_env (answering r)) sample_acme ?mail sample_state
           = (Inr r, snd (register_post ver (sample_env (answering r)) sample_acme ?mail
                            sample_state))" for r ver
    by (cases ver) (simp_all add: eval_defs)
  let ?s1 = "snd (register_post V2 (sample_env (answering ?ok)) sample_acme ?mail sample_state)"
  let ?s1' = "?s1\<lparr>account := (account sample_state)\<lparr>uri := headers ?ok ''Location''\<rparr>\<rparr>"
  let ?s2 = "snd (terms_from_directory (sample_env (answering ?ok)) sample_acme ?s1')"
  have terms: "terms_from_directory (sample_env (answering ?ok)) sample_acme ?s1'
           = (Inr (PStr ''https://ca.example/terms''), ?s2)"
    by (simp add: eval_defs)
  have ok: "status_code ?ok = 201" by (simp add: reply_def)
  have "self_register V1 (sample_env (answering ?ok)) sample_acme ?mail sample_state =
          (case json ?ok of
             None \<Rightarrow> Inl AcmeError_invalid_json
           | Some j \<Rightarrow> Inr (RegistrationResult j (headers ?ok ''Location'')
                             (opt_str (links ?ok ''terms-of-service''))),
           (snd (register_post V1 (sample_env (answering ?ok)) sample_acme ?mail sample_state))
             \<lparr>account := (account sample_state)\<lparr>uri := headers ?ok ''Location''\<rparr>\<rparr>)"
    using register_outcomes [OF post [of V1 ?ok]] ok by blast
  then have a: "fst (self_register V1 (sample_env (answering ?ok)) sample_acme ?mail sample_state)
      = Inr (RegistrationResult (PDict [(''status'', PStr ''valid'')]) (Some ''https://ca/cert/123'')
              PNone)"
    by (simp add: reply_def opt_str_def)
  have "self_register V2 (sample_env (answering ?ok)) sample_acme ?mail sample_state =
          (case json ?ok of
             None \<Rightarrow> Inl AcmeError_invalid_json
           | Some j \<Rightarrow> Inr (RegistrationResult j (headers ?ok ''Location'')
                             (PStr ''https://ca.example/terms'')),
           ?s2)"
    using register_outcomes [OF post [of V2 ?ok], of "PStr ''https://ca.example/terms''" ?s2]
      ok terms by blast
  then have b: "fst (self_register V2 (sample_env (answering ?ok)) sample_acme ?mail sample_state)
      = Inr (RegistrationResult (PDict [(''status'', PStr ''valid'')]) (Some ''https://ca/cert/123'')
              (PStr ''https://ca.example/terms''))"
    by (simp add: reply_def)
  have "status_code (reply 409 Map.empty None) = 409" by (simp add: reply_def)
  with register_outcomes [OF post [of V2 "reply 409 Map.empty None"]]
  have "self_register V2 (sample_env (answering (reply 409 Map.empty None))) sample_acme ?mail
          sample_state =
        (Inl (AccountAlreadyExistsError (reply 409 Map.empty None)
               (headers (reply 409 Map.empty None) ''Location'')),
         snd (register_post V2 (sample_env (answering (reply 409 Map.empty None))) sample_acme
                ?mail sample_state))"
    by blast
  then have c: "fst (self_register V2 (sample_env (answering (reply 409 Map.empty None)))
          sample_acme ?mail sample_state)
     = Inl (AccountAlreadyExistsError (reply 409 Map.empty None) (Some ''https://ca/cert/123''))"
    by (simp add: reply_def)
  have "status_code (reply 500 Map.empty None) \<noteq> 201
        \<and> status_code (reply 500 Map.empty None) \<noteq> 409" by (simp add: reply_def)
  with register_outcomes [OF post [of V1 "reply 500 Map.empty None"]]
  have "self_register V1 (sample_env (answering (reply 500 Map.empty None))) sample_acme ?mail
          sample_state =
        (Inl (AcmeError (reply 500 Map.empty None)),
         snd (register_post V1 (sample_env (answering (reply 500 Map.empty None))) sample_acme
                ?mail sample_state))"
    by blast
  then have d: "fst (self_register V1 (sample_env (answering (reply 500 Map.empty None)))
          sample_acme ?mail sample_state)
     = Inl (AcmeError (reply 500 Map.empty None))"
    by simp
  from a b c d show ?thesis by blast
qed

theorem register_unparseable_body_counterexample:
  "fst (register_post V1 (sample_env (answering (reply 201 Map.empty None))) sample_acme
          ''a@example.org'' sample_state) = Inr (reply 201 Map.empty None)
   \<and> status_code (reply 201 Map.empty None) = 201
   \<and> fst (self_register V1 (sample_env (answering (reply 201 Map.empty None))) sample_acme
          ''a@example.org'' sample_state) = Inl AcmeError_invalid_json"
  by (simp add: eval_defs)

subsection \<open>Nonces\<close>

lemma nonce_per_request_append:
  "nonce_per_request E prev (xs @ ys) =
     (nonce_per_request E prev xs
      \<and> nonce_per_request E (if xs = [] then prev else Some (last xs)) ys)"
  by (induction xs arbitrary: prev) auto

lemma preserves_bind:
  assumes "preserves E m" and "\<And>x. preserves E (f x)"
  shows "preserves E (io_bind m f)"
  unfolding preserves_def
proof (intro allI impI)
  fix s :: state
  assume ok: "nonce_per_request E None (trace s)"
  show "nonce_per_request E None (trace (snd (io_bind m f s)))"
  proof (cases "m s")
    case (Pair res s1)
    with assms(1) ok have ok1: "nonce_per_request E None (trace s1)"
      unfolding preserves_def by (metis snd_conv)
    show ?thesis
    proof (cases res)
      case (Inl e)
      with Pair ok1 show ?thesis by (simp add: io_bind_def)
    next
      case (Inr x)
      with Pair ok1 assms(2) [of x] show ?thesis
        by (simp add: io_bind_def preserves_def)
    qed
  qed
qed

lemma preserves_basic:
  "preserves E (ret x)" "preserves E (raise e)" "preserves E (lift r)"
  "preserves E get_key" "preserves E get_uri" "preserves E (deref p)"
  "preserves E (set_uri u)" "preserves E new_dict" "preserves E (setitem p k v)"
  "preserves E (or_new_dict ps)"
  by (auto simp: preserves_def ret_def raise_def lift_def get_key_def get_uri_def deref_def
      set_uri_def new_dict_def setitem_def or_new_dict_def split: option.splits)

lemma preserves_requests_call:
  "meth rq \<noteq> POST \<Longrightarrow> preserves E (requests_call E rq)"
  by (simp add: preserves_def requests_call_def Let_def nonce_per_request_append)

lemma preserves_if:
  "preserves E a \<Longrightarrow> preserves E b \<Longrightarrow> preserves E (if t then a else b)"
  by simp

lemma preserves_sum_case:
  "(\<And>e. preserves E (f e)) \<Longrightarrow> (\<And>x. preserves E (g x))
     \<Longrightarrow> preserves E (case r of Inl e \<Rightarrow> f e | Inr x \<Rightarrow> g x)"
  by (cases r) simp_all

lemma preserves_option_case:
  "preserves E a \<Longrightarrow> (\<And>x. preserves E (g x))
     \<Longrightarrow> preserves E (case r of None \<Rightarrow> a | Some x \<Rightarrow> g x)"
  by (cases r) simp_all

lemmas preserves_intros = preserves_bind preserves_basic preserves_if

lemma preserves_get: "preserves E (get E c p hs)"
  unfolding get_def Let_def by (intro preserves_intros preserves_requests_call) simp

lemma preserves_head: "preserves E (head E c p hs)"
  unfolding head_def Let_def by (intro preserves_intros preserves_requests_call) simp

lemma preserves_url_from_directory: "preserves E (url_from_directory E c w)"
  unfolding url_from_directory_def get_directory_v2_def
  by (intro preserves_intros preserves_get)

lemma preserves_terms_from_directory: "preserves E (terms_from_directory E c)"
  unfolding terms_from_directory_def get_directory_v2_def
  by (intro preserves_intros preserves_get)

lemma preserves_get_nonce: "preserves E (get_nonce E c)"
  unfolding get_nonce_def by (intro preserves_intros preserves_get)

lemma preserves_get_nonce_v2: "preserves E (get_nonce_v2 E c)"
  unfolding get_nonce_v2_def
  by (intro preserves_intros preserves_head preserves_url_from_directory)

lemma preserves_post: "preserves E (post E c p body hs)"
  unfolding preserves_def
proof (intro allI impI)
  fix s :: state
  assume ok: "nonce_per_request E None (trace s)"
  show "nonce_per_request E None (trace (snd (post E c p body hs s)))"
  proof (cases "generate_header E (key (account s))")
    case (Inl e)
    with ok show ?thesis
      by (simp add: post_def get_headers_def io_bind_def get_key_def lift_def Let_def)
  next
    case header: (Inr header)
    obtain res s1 where fetch: "get_nonce E c s = (res, s1)"
      by (cases "get_nonce E c s")
    show ?thesis
    proof (cases res)
      case (Inl e)
      from preserves_get_nonce [of E c] ok fetch have "nonce_per_request E None (trace s1)"
        unfolding preserves_def by (metis snd_conv)
      with header fetch Inl show ?thesis
        by (simp add: post_def get_headers_def io_bind_def get_key_def lift_def Let_def)
    next
      case (Inr n)
      with fetch obtain rq r where tr: "trace s1 = trace s @ [Http rq (Inr r)]"
        and rq: "meth rq = GET" and n: "headers r ''Replay-Nonce'' = n"
        using get_nonce_last by blast
      from header fetch Inr tr rq n ok show ?thesis
        by (simp add: post_def get_headers_def io_bind_def get_key_def lift_def ret_def
            call_sign_request_def requests_call_def Let_def nonce_per_request_append
            update_conv' split: sum.splits)
    qed
  qed
qed

lemma preserves_post_v2: "preserves E (post_v2 E c p body hs)"
  unfolding preserves_def
proof (intro allI impI)
  fix s :: state
  assume ok: "nonce_per_request E None (trace s)"
  show "nonce_per_request E None (trace (snd (post_v2 E c p body hs s)))"
  proof (cases "path E c p")
    case (Inl e)
    with ok show ?thesis by (simp add: post_v2_def io_bind_def lift_def Let_def)
  next
    case u: (Inr u)
    show ?thesis
    proof (cases "generate_header E (key (account s))")
      case (Inl e)
      with ok u show ?thesis
        by (simp add: post_v2_def get_headers_v2_def io_bind_def get_key_def lift_def Let_def)
    next
      case header: (Inr header)
      obtain res s1 where fetch: "get_nonce_v2 E c s = (res, s1)"
        by (cases "get_nonce_v2 E c s")
      from preserves_get_nonce_v2 [of E c] ok fetch
      have ok1: "nonce_per_request E None (trace s1)"
        unfolding preserves_def by (metis snd_conv)
      show ?thesis
      proof (cases res)
        case (Inl e)
        with u header fetch ok1 show ?thesis
          by (simp add: post_v2_def get_headers_v2_def io_bind_def get_key_def lift_def Let_def)
      next
        case (Inr n)
        with fetch obtain tr rq r where tr: "trace s1 = tr @ [Http rq (Inr r)]"
          and rq: "meth rq = HEAD" and n: "headers r ''Replay-Nonce'' = n"
          using get_nonce_v2_last by blast
        from u header fetch Inr tr rq n ok1 show ?thesis
          by (simp add: post_v2_def get_headers_v2_def io_bind_def get_key_def lift_def ret_def
              call_sign_request_v2_def requests_call_def Let_def nonce_per_request_append
              update_conv' split: sum.splits)
      qed
    qed
  qed
qed

lemma preserves_self_post: "preserves E (self_post ver E c p body hs)"
  by (cases ver) (simp_all add: self_post_def preserves_post preserves_post_v2)

lemma preserves_exec_op:
  assumes "nonce_per_request E None (trace s)"
  shows "nonce_per_request E None (trace (exec_op ver E c x s))"
proof -
  have "preserves E (self_get_directory ver E c)"
    by (cases ver) (simp_all add: self_get_directory_def get_directory_def
        get_directory_v2_def preserves_get)
  moreover have "preserves E (self_get_nonce ver E c)"
    by (cases ver) (simp_all add: self_get_nonce_def preserves_get_nonce
        preserves_get_nonce_v2)
  moreover have "preserves E (self_register ver E c email)" for email
    unfolding self_register_def register_def register_v2_def Let_def
    by (cases ver; simp;
        intro preserves_intros preserves_post preserves_post_v2 preserves_url_from_directory
          preserves_terms_from_directory)
  moreover have "preserves E (get_registration ver E c)"
    unfolding get_registration_def by (intro preserves_intros preserves_self_post)
  moreover have "preserves E (update_registration ver E c ps)" for ps
    unfolding update_registration_def by (intro preserves_intros preserves_self_post)
  moreover have "preserves E (new_authorization ver E c d)" for d
    unfolding new_authorization_def by (intro preserves_intros preserves_self_post)
  moreover have "preserves E (validate_authorization ver E c u ty ka)" for u ty ka
    unfolding validate_authorization_def by (intro preserves_intros preserves_self_post)
  moreover have "preserves E (get_authorization E c u)" for u
    unfolding get_authorization_def
    by (intro preserves_intros preserves_get preserves_sum_case)
  moreover have "preserves E (issue_certificate ver E c csr)" for csr
    unfolding issue_certificate_def
    by (intro preserves_intros preserves_self_post preserves_option_case
        preserves_requests_call) simp
  moreover have "preserves E (revoke_certificate ver E c cert)" for cert
    unfolding revoke_certificate_def by (intro preserves_intros preserves_self_post)
  ultimately show ?thesis
    using assms by (cases x) (simp_all add: preserves_def)
qed

text \<open>
  Claim C2, as amended. Along every sequence of calls on one client, each call of a
  signing function comes right after a nonce fetch of its own that got a response, its
  protected header holds exactly the \<open>Replay-Nonce\<close> value of that response (\<open>None\<close> when
  the header is absent), and each POST carries the body that call produced. The client
  keeps no nonce: two signed requests in a row carry different nonces when the server
  answers their two fetches with different values, and the same value when it repeats one.
\<close>

theorem nonce_fetched_for_every_signed_request:
  assumes "nonce_per_request E None (trace s)"
  shows "nonce_per_request E None (trace (exec_ops ver E c xs s))"
  using assms
proof (induction xs arbitrary: s)
  case Nil
  then show ?case by simp
next
  case (Cons x xs)
  then show ?case by (simp add: preserves_exec_op)
qed

theorem nonce_fetched_for_every_signed_request_witness:
  "nonce_per_request (sample_env (answering (reply 201 Map.empty None))) None (trace sample_state)
   \<and> nonce_per_request (sample_env (answering (reply 201 Map.empty None))) None
       (trace (exec_ops V2 (sample_env (answering (reply 201 Map.empty None))) sample_acme
                 [Register ''a@example.org'', NewAuthorization (PStr ''example.com''),
                  RevokeCertificate (PStr ''cert'')]
                 sample_state))
   \<and> length (signed_nonces
       (trace (exec_ops V2 (sample_env (answering (reply 201 Map.empty None))) sample_acme
                 [Register ''a@example.org'', NewAuthorization (PStr ''example.com''),
                  RevokeCertificate (PStr ''cert'')]
                 sample_state))) = 3"
proof -
  have start: "nonce_per_request (sample_env (answering (reply 201 Map.empty None))) None
          (trace sample_state)"
    by (simp add: sample_state_def)
  have three: "length (signed_nonces
       (trace (exec_ops V2 (sample_env (answering (reply 201 Map.empty None))) sample_acme
                 [Register ''a@example.org'', NewAuthorization (PStr ''example.com''),
                  RevokeCertificate (PStr ''cert'')]
                 sample_state))) = 3"
    by (simp add: eval_defs exec_defs)
  from start three show ?thesis
    using nonce_fetched_for_every_signed_request by blast
qed

theorem same_nonce_twice_counterexample:
  "signed_nonces (trace (exec_ops V1 (sample_env (answering (reply 200 Map.empty None)))
                    sample_acme
                    [RevokeCertificate (PStr ''first''), RevokeCertificate (PStr ''second'')]
                    sample_state))
     = [Some (PStr ''nonce-1''), Some (PStr ''nonce-1'')]
   \<and> \<not> no_reuse (signed_nonces (trace (exec_ops V1
                    (sample_env (answering (reply 200 Map.empty None))) sample_acme
                    [RevokeCertificate (PStr ''first''), RevokeCertificate (PStr ''second'')]
                    sample_state)))"
  by (simp add: eval_defs exec_defs)

subsection \<open>The two protocol versions\<close>

text \<open>
  Claim C3. Of the operations, \<open>AcmeV2\<close> overrides \<open>register\<close> only; the others are
  inherited from \<open>Acme\<close>. On a version 2 client \<open>new_authorization\<close> signs a payload that has the
  \<open>resource\<close> field and posts it to the fixed path \<open>/acme/new-authz\<close>, whatever the
  directory holds.
\<close>

theorem v2_new_authorization_uses_v1_request:
  "signed_payloads (trace (exec_op V2 (sample_env (answering (reply 201 Map.empty None)))
                     sample_acme (NewAuthorization (PStr ''example.com'')) sample_state))
     = [PDict [(''resource'', PStr ''new-authz''),
               (''identifier'', PDict [(''type'', PStr ''dns''),
                                        (''value'', PStr ''example.com'')])]]
   \<and> post_targets (trace (exec_op V2 (sample_env (answering (reply 201 Map.empty None)))
                     sample_acme (NewAuthorization (PStr ''example.com'')) sample_state))
     = [''https://ca.example/acme/new-authz'']
   \<and> subscript sample_directory ''newAuthz'' = Inr (PStr ''https://ca.example/acme/v2/authz'')"
  by (simp add: eval_defs exec_defs)

subsection \<open>Issuance, revocation, paths, directory\<close>

text \<open>
  Claim C4. Once the signed POST of \<open>issue_certificate\<close> has got a response: with status
  201 and a link \<open>up\<close>, the client fetches the linked URL with a plain GET (no signing, the
  default headers only) and the result holds the response body, the \<open>Location\<close> header and
  the body of that GET; with status 201 and no link \<open>up\<close> the intermediate is \<open>None\<close> and
  nothing more is sent; with any other status the call raises \<open>AcmeError\<close>.
\<close>

theorem issue_certificate_result:
  assumes "self_post ver E c (PStr ''/acme/new-cert'') (issue_certificate_payload csr)
             (Some [(''Accept'', Some ''application/pkix-cert'')]) s = (Inr r, s')"
  shows "(status_code r = 201 \<and> links r ''up'' = Some u
            \<and> requests E (trace s')
                 \<lparr>meth = GET, req_url = u, req_headers = DEFAULT_HEADERS E, data = None,
                  verify_kw = None\<rparr> = Inr chain
          \<longrightarrow> fst (issue_certificate ver E c csr s) =
                Inr (IssuanceResult (content r) (headers r ''Location'') (Some (content chain)))
              \<and> trace (snd (issue_certificate ver E c csr s)) =
                trace s' @ [Http \<lparr>meth = GET, req_url = u, req_headers = DEFAULT_HEADERS E,
                                   data = None, verify_kw = None\<rparr> (Inr chain)])
       \<and> (status_code r = 201 \<and> links r ''up'' = None
          \<longrightarrow> issue_certificate ver E c csr s =
                (Inr (IssuanceResult (content r) (headers r ''Location'') None), s'))
       \<and> (status_code r \<noteq> 201
          \<longrightarrow> issue_certificate ver E c csr s = (Inl (AcmeError r), s'))"
  using assms by (simp add: issue_certificate_def io_defs Let_def)

theorem issue_certificate_result_witness:
  "fst (issue_certificate V1
          (sample_env (answering (reply 201 [''up'' \<mapsto> ''https://ca/issuer''] None)))
          sample_acme (PStr ''csr'') sample_state)
     = Inr (IssuanceResult ''response-body'' (Some ''https://ca/cert/123'')
              (Some ''fetched-body''))
   \<and> fst (issue_certificate V1 (sample_env (answering (reply 201 Map.empty None)))
          sample_acme (PStr ''csr'') sample_state)
     = Inr (IssuanceResult ''response-body'' (Some ''https://ca/cert/123'') None)
   \<and> fst (issue_certificate V1 (sample_env (answering (reply 200 Map.empty None)))
          sample_acme (PStr ''csr'') sample_state)
     = Inl (AcmeError (reply 200 Map.empty None))"
proof -
  let ?up = "[''up'' \<mapsto> ''https://ca/issuer'']"
  let ?accept = "Some [(''Accept'', Some ''application/pkix-cert'')]"
  have a: "self_post V1 (sample_env (answering r)) sample_acme (PStr ''/acme/new-cert'')
             (issue_certificate_payload (PStr ''csr'')) ?accept sample_state
           = (Inr r,
              snd (self_post V1 (sample_env (answering r)) sample_acme (PStr ''/acme/new-cert'')
                     (issue_certificate_payload (PStr ''csr'')) ?accept sample_state))" for r
    by (simp add: io_defs client_defs sample_defs dict_update_def)
  show ?thesis
    using issue_certificate_result [OF a [of "reply 201 ?up None"],
            of "''https://ca/issuer''" fetch_reply]
          issue_certificate_result [OF a [of "reply 201 Map.empty None"]]
          issue_certificate_result [OF a [of "reply 200 Map.empty None"]]
    by (simp add: reply_def fetch_reply_def sample_env_def answering_def)
qed

text \<open>
  Claim C5. Whatever the certificate, once the signed POST of \<open>revoke_certificate\<close> has
  got a response, the call returns \<open>True\<close> when the status is 200 and raises \<open>AcmeError\<close>
  with the response for every other status, other 2xx codes included; it returns \<open>True\<close>
  exactly when the status is 200.
\<close>

theorem revoke_certificate_status:
  assumes "self_post ver E c (PStr ''/acme/revoke-cert'') (revoke_certificate_payload cert) None s
             = (Inr r, s')"
  shows "revoke_certificate ver E c cert s =
           (if status_code r = 200 then (Inr True, s') else (Inl (AcmeError r), s'))
         \<and> (fst (revoke_certificate ver E c cert s) = Inr True \<longleftrightarrow> status_code r = 200)"
  using assms by (simp add: revoke_certificate_def io_bind_def ret_def raise_def)

theorem revoke_certificate_status_witness:
  "fst (revoke_certificate V1 (sample_env (answering (reply 204 Map.empty None))) sample_acme
          (PStr ''cert'') sample_state) = Inl (AcmeError (reply 204 Map.empty None))
   \<and> fst (revoke_certificate V2 (sample_env (answering (reply 200 Map.empty None))) sample_acme
          (PStr ''cert'') sample_state) = Inr True"
proof -
  let ?E = "sample_env (answering (reply 204 Map.empty None))"
  let ?E' = "sample_env (answering (reply 200 Map.empty None))"
  have a: "self_post V1 ?E sample_acme (PStr ''/acme/revoke-cert'')
             (revoke_certificate_payload (PStr ''cert'')) None sample_state
           = (Inr (reply 204 Map.empty None),
              snd (self_post V1 ?E sample_acme (PStr ''/acme/revoke-cert'')
                     (revoke_certificate_payload (PStr ''cert'')) None sample_state))"
    by (simp add: io_defs client_defs sample_defs)
  have b: "self_post V2 ?E' sample_acme (PStr ''/acme/revoke-cert'')
             (revoke_certificate_payload (PStr ''cert'')) None sample_state
           = (Inr (reply 200 Map.empty None),
              snd (self_post V2 ?E' sample_acme (PStr ''/acme/revoke-cert'')
                     (revoke_certificate_payload (PStr ''cert'')) None sample_state))"
    by (simp add: io_defs client_defs sample_defs)
  show ?thesis
    using revoke_certificate_status [OF a] revoke_certificate_status [OF b]
    by (simp add: reply_def)
qed

text \<open>
  Claim C6. A path that starts with \<open>http\<close> is replaced by the path component
  \<open>urlparse\<close> gives for it, and that component is joined to the base URL of the client.
  Hence the absolute link \<open>https://ca.example:443/acme/authz/9\<close>, whose path component is
  \<open>/acme/authz/9\<close>, resolves to the same req_url as the relative path \<open>/acme/authz/9\<close>,
  for every base URL.
\<close>

theorem path_absolute_url:
  "(startswith p ''http''
      \<longrightarrow> path E c (PStr p) =
            (case urlparse_path E p of Inl e \<Rightarrow> Inl e | Inr q \<Rightarrow> urljoin E (url c) q))
   \<and> (urlparse_path E ''https://ca.example:443/acme/authz/9'' = Inr ''/acme/authz/9''
      \<longrightarrow> path E c (PStr ''https://ca.example:443/acme/authz/9'')
            = path E c (PStr ''/acme/authz/9''))"
  by (simp add: path_def startswith_def)

theorem path_absolute_url_witness:
  "startswith ''https://ca.example:443/acme/authz/9'' ''http''
   \<and> urlparse_path (sample_env (answering (reply 200 Map.empty None))) ''https://ca.example:443/acme/authz/9'' = Inr ''/acme/authz/9''
   \<and> path (sample_env (answering (reply 200 Map.empty None))) sample_acme (PStr ''https://ca.example:443/acme/authz/9'')
       = Inr ''https://ca.example/acme/authz/9''
   \<and> path (sample_env (answering (reply 200 Map.empty None))) sample_acme (PStr ''/acme/authz/9'')
       = Inr ''https://ca.example/acme/authz/9''"
  using path_absolute_url [of "''https://ca.example:443/acme/authz/9''" "sample_env (answering (reply 200 Map.empty None))" sample_acme]
  by (simp add: sample_defs startswith_def path_def)

text \<open>
  Claim C7. When the directory fetch that \<open>url_from_directory\<close> makes gets a response with
  status 200 whose body parses to a dictionary, the call returns the value that dictionary
  holds under the given name; that response is the last event of the trace, the most recent
  fetch.
\<close>

theorem url_from_directory_lookup:
  assumes "get_directory_v2 E c s = (Inr r, s')"
    and "status_code r = 200"
    and "json r = Some (PDict d)"
    and "map_of d name = Some v"
  shows "url_from_directory E c name s = (Inr v, s')
         \<and> (\<exists>rq. meth rq = GET \<and> trace s' = trace s @ [Http rq (Inr r)])"
proof
  from assms show "url_from_directory E c name s = (Inr v, s')"
    by (simp add: url_from_directory_def io_bind_def lift_def response_json_def)
  from assms(1) show "\<exists>rq. meth rq = GET \<and> trace s' = trace s @ [Http rq (Inr r)]"
    unfolding get_directory_v2_def using get_last by blast
qed

theorem url_from_directory_lookup_witness:
  "fst (url_from_directory (sample_env (answering fetch_reply)) sample_acme ''newAccount''
          sample_state) = Inr (PStr ''https://ca.example/acme/new-acct'')"
proof -
  let ?E = "sample_env (answering fetch_reply)"
  have a: "get_directory_v2 ?E sample_acme sample_state
             = (Inr fetch_reply, snd (get_directory_v2 ?E sample_acme sample_state))"
    by (simp add: io_defs client_defs sample_defs)
  have b: "status_code fetch_reply = 200"
    and c: "json fetch_reply = Some (PDict
              [(''newNonce'', PStr ''https://ca.example/acme/new-nonce''),
               (''newAccount'', PStr ''https://ca.example/acme/new-acct''),
               (''newAuthz'', PStr ''https://ca.example/acme/v2/authz''),
               (''meta'', PDict [(''termsOfService'', PStr ''https://ca.example/terms'')])])"
    by (simp_all add: fetch_reply_def sample_directory_def)
  show ?thesis
    using url_from_directory_lookup [OF a b c, of "''newAccount''"
        "PStr ''https://ca.example/acme/new-acct''"]
    by simp
qed

subsection \<open>What the client changes\<close>

lemma account_other_ops:
  assumes "\<not> is_register x"
  shows "account (exec_op ver E c x s) = account s"
proof -
  have post: "account (snd (self_post ver E c p b hs s)) = account s" for p b hs s
    by (rule only_trace_frame [OF only_trace_self_post])
  have "account (snd (self_get_directory ver E c s)) = account s"
    by (cases ver) (simp_all add: self_get_directory_def get_directory_def
        get_directory_v2_def only_trace_frame [OF only_trace_get])
  moreover have "account (snd (self_get_nonce ver E c s)) = account s"
    by (rule only_trace_frame [OF only_trace_get_nonce])
  moreover have "account (snd (get_registration ver E c s)) = account s"
    unfolding get_registration_def
    by (intro only_trace_frame only_trace_intros only_trace_self_post)
  moreover have "account (snd (update_registration ver E c ps s)) = account s" for ps
    by (auto simp: update_registration_def io_bind_def or_new_dict_def new_dict_def setitem_def
      get_uri_def deref_def ret_def raise_def
      split: prod.splits sum.splits option.splits dest!: self_post_frame)
  moreover have "account (snd (new_authorization ver E c d s)) = account s" for d
    unfolding new_authorization_def
    by (intro only_trace_frame only_trace_intros only_trace_self_post)
  moreover have "account (snd (validate_authorization ver E c u ty ka s)) = account s" for u ty ka
    unfolding validate_authorization_def
    by (intro only_trace_frame only_trace_intros only_trace_self_post)
  moreover have "account (snd (get_authorization E c u s)) = account s" for u
    unfolding get_authorization_def
    by (intro only_trace_frame only_trace_intros only_trace_get only_trace_sum_case)
  moreover have "account (snd (issue_certificate ver E c csr s)) = account s" for csr
    unfolding issue_certificate_def
    by (intro only_trace_frame only_trace_intros only_trace_self_post only_trace_option_case)
  moreover have "account (snd (revoke_certificate ver E c cert s)) = account s" for cert
    unfolding revoke_certificate_def
    by (intro only_trace_frame only_trace_intros only_trace_self_post)
  ultimately show ?thesis
    using assms by (cases x) simp_all
qed

text \<open>
  Claim C8, as amended. No operation other than \<open>register\<close> changes the account. After
  \<open>register\<close> the account has its \<open>uri\<close> set to the \<open>Location\<close> header when the response
  to the signed POST has status 201, also when the call raises after that, and is unchanged
  for every other status (409 included) and when the POST got no response.
\<close>

theorem account_set_by_register_only:
  "(\<not> is_register x \<longrightarrow> account (exec_op ver E c x s) = account s)
   \<and> (register_post ver E c email s = (Inr r, s1)
      \<longrightarrow> account (exec_op ver E c (Register email) s) =
            (if status_code r = 201 then (account s)\<lparr>uri := headers r ''Location''\<rparr>
             else account s))
   \<and> (register_post ver E c email s = (Inl e, s1)
      \<longrightarrow> account (exec_op ver E c (Register email) s) = account s)"
proof (intro conjI impI)
  assume "\<not> is_register x"
  then show "account (exec_op ver E c x s) = account s" by (rule account_other_ops)
next
  assume a: "register_post ver E c email s = (Inr r, s1)"
  from register_post_frame [OF a] have s1: "account s1 = account s" by simp
  have "account (snd (self_register ver E c email s)) =
          (if status_code r = 201 then (account s)\<lparr>uri := headers r ''Location''\<rparr>
           else account s)"
    unfolding register_after_post [OF a]
    using s1
    by (cases ver)
      (auto simp: io_bind_def set_uri_def lift_def ret_def split: sum.splits prod.splits
        dest!: terms_from_directory_frame)
  then show "account (exec_op ver E c (Register email) s) =
          (if status_code r = 201 then (account s)\<lparr>uri := headers r ''Location''\<rparr>
           else account s)"
    by simp
next
  assume a: "register_post ver E c email s = (Inl e, s1)"
  from register_post_frame [OF a] register_post_failed [OF a]
  show "account (exec_op ver E c (Register email) s) = account s" by simp
qed

theorem account_set_by_register_only_witness:
  "account (exec_op V1 (sample_env (answering (reply 201 Map.empty None))) sample_acme
              (RevokeCertificate (PStr ''cert'')) sample_state) = account sample_state
   \<and> account (exec_op V1 (sample_env (answering (reply 201 Map.empty None))) sample_acme
              (Register ''a@example.org'') sample_state)
       = \<lparr>key = ''account-key'', uri = Some ''https://ca/cert/123''\<rparr>
   \<and> account (exec_op V1 (sample_env (answering (reply 409 Map.empty None))) sample_acme
              (Register ''a@example.org'') sample_state) = account sample_state
   \<and> account (exec_op V2 (sample_env refusing) sample_acme
              (Register ''a@example.org'') sample_state) = account sample_state"
proof -
  let ?mail = "''a@example.org''"
  have post: "register_post V1 (sample_env (answering r)) sample_acme ?mail sample_state
           = (Inr r, snd (register_post V1 (sample_env (answering r)) sample_acme ?mail
                            sample_state))" for r
    by (simp add: eval_defs)
  have fail: "register_post V2 (sample_env refusing) sample_acme ?mail sample_state
           = (Inl (CollaboratorError ''connection refused''),
              snd (register_post V2 (sample_env refusing) sample_acme ?mail sample_state))"
    by (simp add: eval_defs refusing_def)
  have a: "account (exec_op V1 (sample_env (answering (reply 201 Map.empty None))) sample_acme
              (RevokeCertificate (PStr ''cert'')) sample_state) = account sample_state"
    using account_set_by_register_only [of "RevokeCertificate (PStr ''cert'')"] by simp
  have b: "account (exec_op V1 (sample_env (answering r)) sample_acme (Register ?mail)
             sample_state) =
           (if status_code r = 201 then (account sample_state)\<lparr>uri := headers r ''Location''\<rparr>
            else account sample_state)" for r
    using account_set_by_register_only [of _ V1 "sample_env (answering r)" sample_acme
        sample_state ?mail r] post [of r]
    by blast
  have c: "account (exec_op V2 (sample_env refusing) sample_acme (Register ?mail)
             sample_state) = account sample_state"
    using account_set_by_register_only [of _ V2 "sample_env refusing" sample_acme
        sample_state ?mail] fail
    by blast
  show ?thesis
    using a b [of "reply 201 Map.empty None"] b [of "reply 409 Map.empty None"] c
    by (simp add: reply_def sample_state_def)
qed

theorem register_error_after_uri_counterexample:
  "fst (self_register V2 (sample_env (answering (reply 201 Map.empty None))) sample_acme
          ''a@example.org'' sample_state) = Inl AcmeError_invalid_json
   \<and> uri (account sample_state) = None
   \<and> uri (account (snd (self_register V2 (sample_env (answering (reply 201 Map.empty None)))
                           sample_acme ''a@example.org'' sample_state)))
       = Some ''https://ca/cert/123''"
  by (simp add: eval_defs)

text \<open>
  Claim C9. When the response to the nonce fetch has no \<open>Replay-Nonce\<close> header,
  \<open>get_nonce\<close> returns \<open>None\<close> in both versions without raising, and \<open>post\<close> goes on: it
  calls the signing function with \<open>None\<close> under \<open>nonce\<close> in the protected header and sends
  the signed body.
\<close>

theorem absent_nonce_used_unchecked:
  "(get E c (PStr ''/directory'') None s = (Inr r, s1) \<and> headers r ''Replay-Nonce'' = None
      \<longrightarrow> get_nonce E c s = (Inr None, s1))
   \<and> (url_from_directory E c ''newNonce'' s = (Inr nu, s0)
      \<and> head E c nu (Some [(''resource'', Some ''new-reg''), (''payload'', None)]) s0 = (Inr r, s1)
      \<and> headers r ''Replay-Nonce'' = None
      \<longrightarrow> get_nonce_v2 E c s = (Inr None, s1))
   \<and> (generate_header E (key (account s)) = Inr h
      \<and> get_nonce E c s = (Inr None, s1)
      \<and> sign_request E (key (account s)) h (AList.update ''nonce'' PNone h) body = Inr signed
      \<and> path E c p = Inr u
      \<longrightarrow> (\<exists>rq out. meth rq = POST \<and> req_url rq = u \<and> data rq = Some signed
            \<and> post E c p body hs s =
                (out, s1\<lparr>trace := trace s1 @
                           [SignRequest (key (account s)) h (AList.update ''nonce'' PNone h) body,
                            Http rq out]\<rparr>)))
   \<and> (generate_header E (key (account s)) = Inr h
      \<and> path E c p = Inr u
      \<and> get_nonce_v2 E c s = (Inr None, s1)
      \<and> sign_request_v2 E (key (account s))
           (AList.update ''url'' (PStr u) (AList.update ''nonce'' PNone h)) body = Inr signed
      \<longrightarrow> (\<exists>rq out. meth rq = POST \<and> req_url rq = u \<and> data rq = Some signed
            \<and> post_v2 E c p body hs s =
                (out, s1\<lparr>trace := trace s1 @
                           [SignRequestV2 (key (account s))
                              (AList.update ''url'' (PStr u) (AList.update ''nonce'' PNone h)) body,
                            Http rq out]\<rparr>)))"
proof (intro conjI impI)
  assume "get E c (PStr ''/directory'') None s = (Inr r, s1) \<and> headers r ''Replay-Nonce'' = None"
  then show "get_nonce E c s = (Inr None, s1)"
    by (simp add: get_nonce_def io_bind_def ret_def)
next
  assume "url_from_directory E c ''newNonce'' s = (Inr nu, s0)
      \<and> head E c nu (Some [(''resource'', Some ''new-reg''), (''payload'', None)]) s0 = (Inr r, s1)
      \<and> headers r ''Replay-Nonce'' = None"
  then show "get_nonce_v2 E c s = (Inr None, s1)"
    by (simp add: get_nonce_v2_def io_bind_def ret_def)
next
  assume a: "generate_header E (key (account s)) = Inr h
      \<and> get_nonce E c s = (Inr None, s1)
      \<and> sign_request E (key (account s)) h (AList.update ''nonce'' PNone h) body = Inr signed
      \<and> path E c p = Inr u"
  then have k: "account s1 = account s" using get_nonce_frame by blast
  let ?rq = "\<lparr>meth = POST, req_url = u,
              req_headers = merge_headers
                 (AList.update ''Content-Type'' (Some ''application/json'') (DEFAULT_HEADERS E)) hs,
              data = Some signed, verify_kw = verify_kwarg c\<rparr>"
  let ?tr = "trace s1 @ [SignRequest (key (account s)) h (AList.update ''nonce'' PNone h) body]"
  from a k have "post E c p body hs s =
      (requests E ?tr ?rq, s1\<lparr>trace := ?tr @ [Http ?rq (requests E ?tr ?rq)]\<rparr>)"
    by (simp add: post_def get_headers_def io_bind_def get_key_def lift_def ret_def
        call_sign_request_def requests_call_def Let_def opt_str_def)
  then show "\<exists>rq out. meth rq = POST \<and> req_url rq = u \<and> data rq = Some signed
            \<and> post E c p body hs s =
                (out, s1\<lparr>trace := trace s1 @
                           [SignRequest (key (account s)) h (AList.update ''nonce'' PNone h) body,
                            Http rq out]\<rparr>)"
    by (intro exI [of _ ?rq] exI [of _ "requests E ?tr ?rq"]) simp
next
  assume a: "generate_header E (key (account s)) = Inr h
      \<and> path E c p = Inr u
      \<and> get_nonce_v2 E c s = (Inr None, s1)
      \<and> sign_request_v2 E (key (account s))
           (AList.update ''url'' (PStr u) (AList.update ''nonce'' PNone h)) body = Inr signed"
  then have k: "account s1 = account s" using get_nonce_v2_frame by blast
  let ?rq = "\<lparr>meth = POST, req_url = u,
              req_headers = merge_headers
                 (AList.update ''Content-Type'' (Some ''application/jose+json'')
                    (DEFAULT_HEADERS E)) hs,
              data = Some signed, verify_kw = verify_kwarg c\<rparr>"
  let ?tr = "trace s1 @ [SignRequestV2 (key (account s))
                           (AList.update ''url'' (PStr u) (AList.update ''nonce'' PNone h)) body]"
  from a k have "post_v2 E c p body hs s =
      (requests E ?tr ?rq, s1\<lparr>trace := ?tr @ [Http ?rq (requests E ?tr ?rq)]\<rparr>)"
    by (simp add: post_v2_def get_headers_v2_def io_bind_def get_key_def lift_def ret_def
        call_sign_request_v2_def requests_call_def Let_def opt_str_def)
  then show "\<exists>rq out. meth rq = POST \<and> req_url rq = u \<and> data rq = Some signed
            \<and> post_v2 E c p body hs s =
                (out, s1\<lparr>trace := trace s1 @
                           [SignRequestV2 (key (account s))
                              (AList.update ''url'' (PStr u) (AList.update ''nonce'' PNone h)) body,
                            Http rq out]\<rparr>)"
    by (intro exI [of _ ?rq] exI [of _ "requests E ?tr ?rq"]) simp
qed

theorem absent_nonce_used_unchecked_witness:
  "fst (get_nonce (sample_env without_nonce) sample_acme sample_state) = Inr None
   \<and> fst (get_nonce_v2 (sample_env without_nonce) sample_acme sample_state) = Inr None
   \<and> signed_nonces (trace (snd (post (sample_env without_nonce) sample_acme
                                  (PStr ''/acme/new-reg'') PNone None sample_state)))
       = [Some PNone]
   \<and> signed_nonces (trace (snd (post_v2 (sample_env without_nonce) sample_acme
                                  (PStr ''/acme/new-reg'') PNone None sample_state)))
       = [Some PNone]"
proof -
  let ?E = "sample_env without_nonce"
  let ?r = "reply 200 Map.empty (Some sample_directory)"
  let ?h = "[(''alg'', PStr ''RS256''), (''jwk'', PStr ''account-key'')]"
  let ?u = "''https://ca.example/acme/new-reg''"
  let ?s1 = "snd (get ?E sample_acme (PStr ''/directory'') None sample_state)"
  let ?s0 = "snd (url_from_directory ?E sample_acme ''newNonce'' sample_state)"
  let ?nu = "PStr ''https://ca.example/acme/new-nonce''"
  let ?hs = "Some [(''resource'', Some ''new-reg''), (''payload'', None)]"
  let ?s2 = "snd (head ?E sample_acme ?nu ?hs ?s0)"
  note thm1 = absent_nonce_used_unchecked [where E = ?E and c = sample_acme
      and s = sample_state and r = ?r and ?s1.0 = ?s1, THEN conjunct1, rule_format]
  note thm2 = absent_nonce_used_unchecked [where E = ?E and c = sample_acme
      and s = sample_state and r = ?r and ?s1.0 = ?s2 and nu = ?nu and ?s0.0 = ?s0,
      THEN conjunct2, THEN conjunct1, rule_format]
  note thm3 = absent_nonce_used_unchecked [where E = ?E and c = sample_acme
      and s = sample_state and ?s1.0 = ?s1 and h = ?h and body = PNone
      and signed = "''signed-v1''" and p = "PStr ''/acme/new-reg''" and u = ?u and hs = None,
      THEN conjunct2, THEN conjunct2, THEN conjunct1, rule_format]
  note thm4 = absent_nonce_used_unchecked [where E = ?E and c = sample_acme
      and s = sample_state and ?s1.0 = ?s2 and h = ?h and body = PNone
      and signed = "''signed-v2''" and p = "PStr ''/acme/new-reg''" and u = ?u and hs = None,
      THEN conjunct2, THEN conjunct2, THEN conjunct2, rule_format]
  have none: "headers ?r ''Replay-Nonce'' = None" by (simp add: reply_def)
  have g: "get ?E sample_acme (PStr ''/directory'') None sample_state = (Inr ?r, ?s1)"
    by (simp add: eval_defs without_nonce_def)
  have n1: "get_nonce ?E sample_acme sample_state = (Inr None, ?s1)"
    by (rule thm1) (use g none in blast)
  have d: "url_from_directory ?E sample_acme ''newNonce'' sample_state = (Inr ?nu, ?s0)"
    by (simp add: eval_defs without_nonce_def)
  have hd: "head ?E sample_acme ?nu ?hs ?s0 = (Inr ?r, ?s2)"
    by (simp add: eval_defs without_nonce_def)
  have n2: "get_nonce_v2 ?E sample_acme sample_state = (Inr None, ?s2)"
    by (rule thm2) (use d hd none in blast)
  have gh: "generate_header ?E (key (account sample_state)) = Inr ?h"
    by (simp add: sample_defs)
  have p: "path ?E sample_acme (PStr ''/acme/new-reg'') = Inr ?u"
    by (simp add: eval_defs)
  have sg: "sign_request ?E (key (account sample_state)) ?h (AList.update ''nonce'' PNone ?h) PNone
              = Inr ''signed-v1''"
    by (simp add: sample_defs)
  have "\<exists>rq out. meth rq = POST \<and> req_url rq = ?u \<and> data rq = Some ''signed-v1''
          \<and> post ?E sample_acme (PStr ''/acme/new-reg'') PNone None sample_state =
              (out, ?s1\<lparr>trace := trace ?s1 @
                 [SignRequest (key (account sample_state)) ?h (AList.update ''nonce'' PNone ?h)
                    PNone, Http rq out]\<rparr>)"
    by (rule thm3) (use gh n1 sg p in blast)
  then obtain rq out where
    "post ?E sample_acme (PStr ''/acme/new-reg'') PNone None sample_state =
       (out, ?s1\<lparr>trace := trace ?s1 @
          [SignRequest (key (account sample_state)) ?h (AList.update ''nonce'' PNone ?h)
             PNone, Http rq out]\<rparr>)"
    by blast
  then have "trace (snd (post ?E sample_acme (PStr ''/acme/new-reg'') PNone None sample_state))
      = trace ?s1 @ [SignRequest (key (account sample_state)) ?h (AList.update ''nonce'' PNone ?h)
             PNone, Http rq out]"
    by simp
  moreover have "trace ?s1 = [Http \<lparr>meth = GET, req_url = ''https://ca.example/directory'',
      req_headers = DEFAULT_HEADERS ?E, data = None, verify_kw = None\<rparr> (Inr ?r)]"
    by (simp add: eval_defs without_nonce_def)
  ultimately have v1: "signed_nonces (trace (snd (post ?E sample_acme (PStr ''/acme/new-reg'')
      PNone None sample_state))) = [Some PNone]"
    by simp
  let ?prot = "AList.update ''url'' (PStr ?u) (AList.update ''nonce'' PNone ?h)"
  have sg2: "sign_request_v2 ?E (key (account sample_state)) ?prot PNone = Inr ''signed-v2''"
    by (simp add: sample_defs)
  have "\<exists>rq out. meth rq = POST \<and> req_url rq = ?u \<and> data rq = Some ''signed-v2''
          \<and> post_v2 ?E sample_acme (PStr ''/acme/new-reg'') PNone None sample_state =
              (out, ?s2\<lparr>trace := trace ?s2 @
                 [SignRequestV2 (key (account sample_state)) ?prot PNone, Http rq out]\<rparr>)"
    by (rule thm4) (use gh p n2 sg2 in blast)
  then obtain rq2 out2 where
    "post_v2 ?E sample_acme (PStr ''/acme/new-reg'') PNone None sample_state =
       (out2, ?s2\<lparr>trace := trace ?s2 @
          [SignRequestV2 (key (account sample_state)) ?prot PNone, Http rq2 out2]\<rparr>)"
    by blast
  then have "trace (snd (post_v2 ?E sample_acme (PStr ''/acme/new-reg'') PNone None
                          sample_state))
      = trace ?s2 @ [SignRequestV2 (key (account sample_state)) ?prot PNone, Http rq2 out2]"
    by simp
  moreover have "signed_nonces (trace ?s2) = []"
    by (simp add: eval_defs without_nonce_def)
  moreover have "signed_nonces (xs @ ys) = signed_nonces xs @ signed_nonces ys" for xs ys
    by (induction xs rule: signed_nonces.induct) simp_all
  ultimately have v2: "signed_nonces (trace (snd (post_v2 ?E sample_acme (PStr ''/acme/new-reg'')
      PNone None sample_state))) = [Some PNone]"
    by simp
  from n1 n2 v1 v2 show ?thesis by simp
qed

text \<open>
  Claim C10, as amended. A non-empty dictionary passed to \<open>update_registration\<close> holds
  \<open>resource\<close> = \<open>reg\<close> after the call, its other entries untouched, whether or not the
  request succeeds. An empty dictionary passed by the caller stays empty: \<open>params or {}\<close>
  replaces it by a new dictionary.
\<close>

theorem update_registration_params:
  "(objects s r \<noteq> []
      \<longrightarrow> objects (snd (update_registration ver E c (Some r) s)) r
            = AList.update ''resource'' (PStr ''reg'') (objects s r))
   \<and> (objects s r = [] \<and> r < next_ref s
      \<longrightarrow> objects (snd (update_registration ver E c (Some r) s)) r = [])"
  by (auto simp: update_registration_def io_bind_def or_new_dict_def new_dict_def setitem_def
      get_uri_def deref_def ret_def raise_def
      split: prod.splits sum.splits dest!: self_post_frame)

theorem update_registration_params_witness:
  "objects (snd (update_registration V1 (sample_env (answering fetch_reply)) sample_acme (Some 0)
                  (sample_state\<lparr>objects := (\<lambda>_. [(''contact'', PList [])])\<rparr>))) 0
     = [(''contact'', PList []), (''resource'', PStr ''reg'')]
   \<and> objects (snd (update_registration V2 (sample_env (answering fetch_reply)) sample_acme
                  (Some 0) sample_state)) 0 = []"
  using update_registration_params [of "sample_state\<lparr>objects := (\<lambda>_. [(''contact'', PList [])])\<rparr>"
      0 V1 "sample_env (answering fetch_reply)" sample_acme]
    update_registration_params [of sample_state 0 V2 "sample_env (answering fetch_reply)"
      sample_acme]
  by (simp add: sample_state_def)

theorem update_registration_empty_params_counterexample:
  "objects sample_state 0 = [] \<and>
   map_of (objects (snd (update_registration V1 (sample_env (answering fetch_reply))
                           sample_acme (Some 0) sample_state)) 0) ''resource'' = None"
  by (simp add: update_registration_def or_new_dict_def new_dict_def setitem_def deref_def
      status_2xx_def io_defs client_defs sample_defs)

end
